theory Spec2Isabelle
  imports Main "HOL-Library.Word"
begin

section \<open>Values shared by the packages\<close>

subsection \<open>Messages (package ws)\<close>

text \<open>
  \<^verbatim>\<open>type MessageType uint8\<close> with \<^verbatim>\<open>NotDefined = iota\<close>, \<^verbatim>\<open>Request\<close>, \<^verbatim>\<open>Response\<close>.
  Every byte is a value of the type; only 1 and 2 are named message kinds.
\<close>

type_synonym MessageType = "8 word"

definition NotDefined :: MessageType where
  "NotDefined = 0"

definition Request :: MessageType where
  "Request = 1"

definition Response :: MessageType where
  "Response = 2"

text \<open>\<^verbatim>\<open>func (mt MessageType) String() string\<close>\<close>

definition MessageType_String :: "MessageType \<Rightarrow> string" where
  "MessageType_String mt =
     (if mt = Request then ''Request''
      else if mt = Response then ''Response''
      else ''Not defined'')"

record Message =
  Data :: string
  Type :: MessageType

subsection \<open>Errors and panics\<close>

text \<open>
  An error made by \<^verbatim>\<open>fmt.Errorf\<close> is kept as its format string and its arguments, in
  order; the verbs (\<^verbatim>\<open>%s\<close>, \<^verbatim>\<open>%q\<close>, \<^verbatim>\<open>%w\<close>) stay in the format string. The typed errors
  of package command keep their fields. \<^verbatim>\<open>NumError\<close> is the error of \<^verbatim>\<open>strconv\<close>.
\<close>

datatype num_err = ErrSyntax | ErrRange

datatype error =
    ErrEmptyCommand
  | ErrEmptyRequest
  | ErrInvalidTimeout string
  | ErrUnknownCommand string
  | NumError string string num_err
  | Errorf string "fmt_arg list"
and fmt_arg =
    ArgString string
  | ArgError "error option"

text \<open>A run-time panic of Go: an index expression out of range (index, length).\<close>

datatype panic = IndexOutOfRange nat nat

datatype 'a go = Returns 'a | Panics panic

section \<open>Library functions of Go used by the parser\<close>

subsection \<open>\<^verbatim>\<open>strings.SplitN\<close>\<close>

text \<open>
  \<open>cut_at sep s\<close> finds the first occurrence of the non-empty separator and gives the
  text before it and the text after it.
\<close>

fun cut_at :: "string \<Rightarrow> string \<Rightarrow> (string \<times> string) option" where
  "cut_at sep [] = None"
| "cut_at sep (c # cs) =
     (if take (length sep) (c # cs) = sep then Some ([], drop (length sep) (c # cs))
      else (case cut_at sep cs of
              None \<Rightarrow> None
            | Some (b, a) \<Rightarrow> Some (c # b, a)))"

text \<open>
  \<^verbatim>\<open>strings.SplitN(s, sep, n)\<close> for a non-empty separator and \<open>n \<ge> 0\<close>: at most \<open>n\<close>
  substrings, the last one being the unsplit remainder.
\<close>

fun SplitN :: "string \<Rightarrow> string \<Rightarrow> nat \<Rightarrow> string list" where
  "SplitN s sep 0 = []"
| "SplitN s sep (Suc 0) = [s]"
| "SplitN s sep (Suc (Suc n)) =
     (case cut_at sep s of
        None \<Rightarrow> [s]
      | Some (b, a) \<Rightarrow> b # SplitN a sep (Suc n))"

subsection \<open>\<^verbatim>\<open>strconv.Atoi\<close>\<close>

definition is_digit :: "char \<Rightarrow> bool" where
  "is_digit c \<longleftrightarrow> 48 \<le> (of_char c :: nat) \<and> (of_char c :: nat) \<le> 57"

definition digit_val :: "char \<Rightarrow> nat" where
  "digit_val c = of_char c - 48"

definition maxUint64 :: nat where
  "maxUint64 = 2 ^ 64 - 1"

text \<open>
  The digit loop of \<^verbatim>\<open>ParseUint(s, 10, 64)\<close>: a byte that is no decimal digit is a syntax
  error, a value beyond 64 bits is a range error, whichever comes first from the left.
\<close>

fun ParseUint_loop :: "string \<Rightarrow> nat \<Rightarrow> num_err + nat" where
  "ParseUint_loop [] n = Inr n"
| "ParseUint_loop (c # cs) n =
     (if \<not> is_digit c then Inl ErrSyntax
      else if n \<ge> maxUint64 div 10 + 1 then Inl ErrRange
      else (let n1 = n * 10 + digit_val c
            in if n1 > maxUint64 then Inl ErrRange else ParseUint_loop cs n1))"

definition ParseUint :: "string \<Rightarrow> num_err + nat" where
  "ParseUint s = (if s = [] then Inl ErrSyntax else ParseUint_loop s 0)"

text \<open>
  \<^verbatim>\<open>strconv.Atoi\<close> on a 64-bit platform: an optional sign, then decimal digits; the
  value must fit \<^verbatim>\<open>int\<close>. (Its fast path for short strings computes the same result.)
\<close>

definition Atoi :: "string \<Rightarrow> error + int" where
  "Atoi s =
     (if s = [] then Inl (NumError ''Atoi'' s ErrSyntax)
      else
        let neg = (hd s = CHR ''-'');
            body = (if hd s = CHR ''+'' \<or> hd s = CHR ''-'' then tl s else s)
        in case ParseUint body of
             Inl ErrSyntax \<Rightarrow> Inl (NumError ''Atoi'' s ErrSyntax)
           | Inl ErrRange \<Rightarrow> Inl (NumError ''Atoi'' s ErrRange)
           | Inr un \<Rightarrow>
               if \<not> neg \<and> un \<ge> 2 ^ 63 then Inl (NumError ''Atoi'' s ErrRange)
               else if neg \<and> un > 2 ^ 63 then Inl (NumError ''Atoi'' s ErrRange)
               else Inr (if neg then - int un else int un))"

subsection \<open>\<^verbatim>\<open>time.Duration\<close>\<close>

text \<open>A duration is an \<^verbatim>\<open>int64\<close> count of nanoseconds; its arithmetic wraps.\<close>

type_synonym Duration = "64 word"

definition Second :: Duration where
  "Second = 1000000000"

text \<open>\<^verbatim>\<open>time.Duration(sec) * time.Second\<close> for an \<^verbatim>\<open>int\<close> \<open>sec\<close>.\<close>

definition seconds :: "int \<Rightarrow> Duration" where
  "seconds sec = word_of_int sec * Second"

section \<open>Commands\<close>

text \<open>
  The \<^verbatim>\<open>Executer\<close> interface is a closed sum of the command variants. An interface value
  of Go may be \<^verbatim>\<open>nil\<close>: a sub-command is an \<open>executer option\<close>.
\<close>

datatype executer =
    Exit
  | Edit string
  | CmdEdit
  | Send string
  | PrintMsg Message
  | WaitForResp Duration
  | Repeat int "executer option"
  | Sleep Duration
  | Sequence "executer option list"

text \<open>What \<^verbatim>\<open>Create\<close>, \<^verbatim>\<open>Get\<close> and \<^verbatim>\<open>Execute\<close> return: the pair \<^verbatim>\<open>(Executer, error)\<close>.\<close>

type_synonym exec_ret = "executer option \<times> error option"

section \<open>The command factory (package command)\<close>

text \<open>
  Modelled from the spec: the constant \<^verbatim>\<open>PartsNumber\<close> is declared outside the given
  sources. The line is split "on the first whitespace into a command keyword and a
  remainder", which is two parts.
\<close>

definition PartsNumber :: nat where
  "PartsNumber = 2"

text \<open>
  \<^verbatim>\<open>MacroRepo\<close> is an interface with the one method \<^verbatim>\<open>Get(name, argString)\<close>; the field
  \<^verbatim>\<open>f.macro\<close> may be \<^verbatim>\<open>nil\<close>.
\<close>

type_synonym MacroRepo = "string \<Rightarrow> string \<Rightarrow> exec_ret go"

lemma cut_at_length:
  "cut_at sep s = Some (b, a) \<Longrightarrow> length b + length sep + length a = length s"
proof (induction s arbitrary: b a)
  case Nil
  then show ?case by simp
next
  case (Cons c cs)
  show ?case
  proof (cases "take (length sep) (c # cs) = sep")
    case True
    with Cons.prems have b: "b = []" and a: "a = drop (length sep) (c # cs)"
      by simp_all
    from True have "length (take (length sep) (c # cs)) = length sep"
      by (rule arg_cong)
    then have "length sep \<le> length (c # cs)"
      unfolding length_take by linarith
    with a b show ?thesis by simp
  next
    case False
    with Cons.prems obtain b' where c: "cut_at sep cs = Some (b', a)" and b: "b = c # b'"
      by (auto split: option.splits)
    from Cons.IH [OF c] b show ?thesis by simp
  qed
qed

lemma SplitN_2:
  "SplitN s sep 2 = (case cut_at sep s of None \<Rightarrow> [s] | Some (b, a) \<Rightarrow> [b, a])"
  by (simp add: numeral_2_eq_2 split: option.splits)

lemma SplitN_2_second_shorter:
  assumes "1 < length (SplitN s sep 2)" and "sep \<noteq> []"
  shows "length (SplitN s sep 2 ! 1) < length s"
proof (cases "cut_at sep s")
  case None
  with assms show ?thesis by (simp add: SplitN_2)
next
  case (Some p)
  obtain b a where p: "p = (b, a)" by (cases p)
  from cut_at_length [of sep s b a] Some p assms(2) have "length a < length s"
    by (cases sep) auto
  with Some p show ?thesis by (simp add: SplitN_2)
qed


text \<open>
  \<^verbatim>\<open>func (f *Factory) Create(raw string) (core.Executer, error)\<close>. The factory's only
  field is the macro repository, passed as the first argument. An index expression on a
  slice outside its length panics; the recursive call's panic is the caller's.
\<close>

function Create :: "MacroRepo option \<Rightarrow> string \<Rightarrow> exec_ret go" where
  "Create macro raw =
     (if raw = [] then Returns (None, Some ErrEmptyCommand)
      else
        let parts = SplitN raw '' '' PartsNumber;
            cmd = parts ! 0
        in
        if cmd = ''exit'' then Returns (Some Exit, None)
        else if cmd = ''edit'' then
          (let content = (if length parts > 1 then parts ! 1 else [])
           in Returns (Some (Edit content), None))
        else if cmd = ''editcmd'' then Returns (Some CmdEdit, None)
        else if cmd = ''send'' then
          (if length parts = 1 then Returns (None, Some ErrEmptyRequest)
           else Returns (Some (Send (parts ! 1)), None))
        else if cmd = ''print'' then
          (if length parts = 1 then Returns (None, Some ErrEmptyRequest)
           else
             let args = SplitN (parts ! 1) '' '' PartsNumber in
             if length args < PartsNumber then
               Returns (None, Some (Errorf ''not enough arguments for print command: %s''
                                      [ArgString raw]))
             else if args ! 0 = ''Request'' then
               Returns (Some (PrintMsg \<lparr>Data = args ! 1, Type = Request\<rparr>), None)
             else if args ! 0 = ''Response'' then
               Returns (Some (PrintMsg \<lparr>Data = args ! 1, Type = Response\<rparr>), None)
             else
               Returns (None, Some (Errorf ''invalid message type: %s''
                                      [ArgString (parts ! 0)])))
        else if cmd = ''wait'' then
          (if length parts > 1 then
             (case Atoi (parts ! 1) of
                Inl err \<Rightarrow> Returns (None, Some (ErrInvalidTimeout (parts ! 1)))
              | Inr sec \<Rightarrow>
                  if sec < 0 then Returns (None, Some (ErrInvalidTimeout (parts ! 1)))
                  else Returns (Some (WaitForResp (seconds sec)), None))
           else Returns (Some (WaitForResp 0), None))
        else if cmd = ''repeat'' then
          (if length parts < PartsNumber then
             Returns (None, Some (Errorf ''not enough arguments for repeat command: %s''
                                    [ArgString raw]))
           else
             let repeatParts = SplitN (parts ! 1) '' '' PartsNumber in
             if length parts < PartsNumber then
               Returns (None, Some (Errorf ''not enough arguments for repeat command: %s''
                                      [ArgString raw]))
             else
               (case Atoi (repeatParts ! 0) of
                  Inl err \<Rightarrow>
                    Returns (None, Some (Errorf ''invalid repeat times: %s''
                                           [ArgString (repeatParts ! 0)]))
                | Inr times' \<Rightarrow>
                    if times' \<le> 0 then
                      Returns (None, Some (Errorf ''invalid repeat times: %s''
                                             [ArgString (repeatParts ! 0)]))
                    else if \<not> 1 < length repeatParts then
                      Panics (IndexOutOfRange 1 (length repeatParts))
                    else
                      (case Create macro (repeatParts ! 1) of
                         Panics p \<Rightarrow> Panics p
                       | Returns (subCommand, err) \<Rightarrow>
                           if err \<noteq> None then Returns (None, err)
                           else Returns (Some (Repeat times' subCommand), None))))
        else if cmd = ''sleep'' then
          (if length parts < PartsNumber then
             Returns (None, Some (Errorf ''not enough arguments for sleep command: %s''
                                    [ArgString raw]))
           else
             (case Atoi (parts ! 1) of
                Inl err \<Rightarrow>
                  Returns (None, Some (Errorf ''invalid sleep duration: %s''
                                         [ArgString (parts ! 1)]))
              | Inr sec \<Rightarrow>
                  if sec < 0 then
                    Returns (None, Some (Errorf ''invalid sleep duration: %s''
                                           [ArgString (parts ! 1)]))
                  else Returns (Some (Sleep (seconds sec)), None)))
        else
          (let args = (if length parts > 1 then parts ! 1 else [])
           in case macro of
                Some m \<Rightarrow> m cmd args
              | None \<Rightarrow> Returns (None, Some (ErrUnknownCommand cmd))))"
  by pat_completeness auto
termination
proof (relation "measure (\<lambda>(macro, raw). length raw)")
  show "wf (measure (\<lambda>(macro, raw). length raw))"
    by simp
next
  fix macro :: "MacroRepo option" and raw parts repeatParts
  assume parts: "parts = SplitN raw '' '' PartsNumber"
    and enough: "\<not> length parts < PartsNumber"
    and rp: "repeatParts = SplitN (parts ! 1) '' '' PartsNumber"
    and idx: "\<not> \<not> 1 < length repeatParts"
  from enough have "1 < length (SplitN raw '' '' 2)"
    by (simp add: parts PartsNumber_def)
  then have "length (parts ! 1) < length raw"
    unfolding parts PartsNumber_def by (rule SplitN_2_second_shorter) simp
  moreover from idx have "1 < length (SplitN (parts ! 1) '' '' 2)"
    by (simp add: rp PartsNumber_def)
  then have "length (repeatParts ! 1) < length (parts ! 1)"
    unfolding rp PartsNumber_def by (rule SplitN_2_second_shorter) simp
  ultimately show "((macro, repeatParts ! 1), macro, raw) \<in> measure (\<lambda>(macro, raw). length raw)"
    by simp
qed

declare Create.simps [simp del]


section \<open>The connection (package ws)\<close>

text \<open>
  The \<^verbatim>\<open>Connection\<close> struct as one sequential caller sees it. The transport \<^verbatim>\<open>ws\<close> is
  outside the program: \<open>ws_Send\<close> is what it answers to a write, \<open>ws_sent\<close> what it has
  accepted, \<open>ws_Close_calls\<close> how often its \<^verbatim>\<open>Close\<close> was called. The channel
  \<^verbatim>\<open>Messages\<close> is the sequence of messages it still delivers, and whether it is closed
  once they are taken; \<open>arrives_within d\<close> tells whether its next event comes before a
  timer of duration \<open>d\<close> fires.
\<close>

record Connection =
  ws_Send :: "string \<Rightarrow> error option"
  ws_sent :: "string list"
  ws_Close_calls :: nat
  Messages :: "Message list"
  Messages_closes :: bool
  arrives_within :: "Duration \<Rightarrow> bool"
  waitGroup :: nat
  Hostname :: string
  isClosed :: bool


text \<open>\<^verbatim>\<open>func (wsInsp *Connection) Close()\<close>\<close>

definition Connection_Close :: "Connection \<Rightarrow> Connection" where
  "Connection_Close conn =
     (if isClosed conn then conn
      else (let conn1 = conn\<lparr>isClosed := True\<rparr>
            in conn1\<lparr>ws_Close_calls := ws_Close_calls conn1 + 1\<rparr>))"

text \<open>
  A receive \<^verbatim>\<open>msg, ok := <-Messages\<close>: the next message, or \<^verbatim>\<open>ok = false\<close> on the closed
  and drained channel; on an open channel that delivers nothing more it never returns
  (\<open>None\<close>).
\<close>

definition receive :: "Connection \<Rightarrow> (Message option \<times> Connection) option" where
  "receive conn =
     (case Messages conn of
        m # ms \<Rightarrow> Some (Some m, conn\<lparr>Messages := ms\<rparr>)
      | [] \<Rightarrow> if Messages_closes conn then Some (None, conn) else None)"

section \<open>Commands of package cmd and their execution\<close>


definition LineClear :: string where
  "LineClear = [char_of (27 :: nat)] @ ''[2K''"

definition HideCursor :: string where
  "HideCursor = [char_of (27 :: nat)] @ ''[?25l''"

definition ShowCursor :: string where
  "ShowCursor = [char_of (27 :: nat)] @ ''[?25h''"

datatype color = FgGreen | FgRed

text \<open>
  One write to a sink: \<^verbatim>\<open>fmt.Fprint\<close> of a text, a coloured \<^verbatim>\<open>Fprint\<close> of a text, a
  coloured \<^verbatim>\<open>Fprintln\<close> of an error.
\<close>

datatype written = Plain string | Colored color string | ColoredError color error

text \<open>\<^verbatim>\<open>Macro.Get(name)\<close> of package cmd; the pointer may be \<^verbatim>\<open>nil\<close>.\<close>

type_synonym Macro = "string \<Rightarrow> exec_ret"

text \<open>
  The \<^verbatim>\<open>ExecutionContext\<close> interface: each capability is a field. The sinks hold what was
  written to them; the file sink may be \<^verbatim>\<open>nil\<close>. An editor is what its \<^verbatim>\<open>Edit\<close> returns for
  an initial buffer, the key events being those of \<^verbatim>\<open>Input()\<close>.
\<close>

record ExecutionContext =
  OutputFile :: "string list option"
  Output :: "written list"
  FormatMessage :: "Message \<Rightarrow> string \<times> error option"
  FormatForFile :: "Message \<Rightarrow> string \<times> error option"
  Connection :: Connection
  RequestEditor :: "string \<Rightarrow> string \<times> error option"
  CmdEditor :: "string \<Rightarrow> string \<times> error option"
  Macro :: "Macro option"

definition Fprint :: "written \<Rightarrow> ExecutionContext \<Rightarrow> ExecutionContext" where
  "Fprint w exCtx = exCtx\<lparr>Output := Output exCtx @ [w]\<rparr>"

definition CommandPartsNumber :: nat where
  "CommandPartsNumber = 2"

text \<open>\<^verbatim>\<open>func CommandFactory(raw string, macro *Macro) (Executer, error)\<close>\<close>

definition CommandFactory :: "string \<Rightarrow> Macro option \<Rightarrow> exec_ret" where
  "CommandFactory raw macro =
     (if raw = [] then (None, Some (Errorf ''empty command'' []))
      else
        let parts = SplitN raw '' '' CommandPartsNumber;
            cmd = parts ! 0
        in
        if cmd = ''exit'' then (Some Exit, None)
        else if cmd = ''edit'' then
          (let content = (if length parts > 1 then parts ! 1 else [])
           in (Some (Edit content), None))
        else if cmd = ''send'' then
          (if length parts = 1 then (None, Some (Errorf ''empty request'' []))
           else (Some (Send (parts ! 1)), None))
        else if cmd = ''wait'' then
          (if length parts > 1 then
             (case Atoi (parts ! 1) of
                Inl err \<Rightarrow> (None, Some (Errorf ''invalid timeout: %s'' [ArgError (Some err)]))
              | Inr sec \<Rightarrow>
                  if sec < 0 then (None, Some (Errorf ''invalid timeout: %s'' [ArgError None]))
                  else (Some (WaitForResp (seconds sec)), None))
           else (Some (WaitForResp 0), None))
        else
          (case macro of
             Some m \<Rightarrow> m cmd
           | None \<Rightarrow> (None, Some (Errorf ''unknown command: %s'' [ArgString cmd]))))"



text \<open>\<^verbatim>\<open>func (c *CommandPrintMsg) Execute(exCtx ExecutionContext) (Executer, error)\<close>\<close>

definition CommandPrintMsg_Execute :: "Message \<Rightarrow> ExecutionContext \<Rightarrow> exec_ret \<times> ExecutionContext" where
  "CommandPrintMsg_Execute msg exCtx =
     (let (output, err) = FormatMessage exCtx msg in
      if err \<noteq> None then
        ((None, Some (Errorf ''fail to format for output file: %s, data: %q''
                        [ArgError err, ArgString (Data msg)])), exCtx)
      else if Type msg \<noteq> Request \<and> Type msg \<noteq> Response then
        ((None, Some (Errorf ''unknown message type: %s, data: %q''
                        [ArgString (MessageType_String (Type msg)), ArgString (Data msg)])),
         exCtx)
      else
        let c1 = (if Type msg = Request then Fprint (Colored FgGreen ''->\<newline>'') exCtx
                  else Fprint (Colored FgRed ''<-\<newline>'') exCtx);
            c2 = Fprint (Plain (output @ ''\<newline>'')) c1
        in case OutputFile c2 of
             None \<Rightarrow> ((None, None), c2)
           | Some file \<Rightarrow>
               (let (output', err') = FormatForFile c2 msg in
                if err' \<noteq> None then
                  ((None, Some (Errorf ''fail to write to output file: %s'' [ArgError err'])), c2)
                else ((None, None), c2\<lparr>OutputFile := Some (file @ [output' @ ''\<newline>''])\<rparr>)))"


text \<open>
  \<^verbatim>\<open>func (c *CommandWaitForResp) Execute(exCtx ExecutionContext) (Executer, error)\<close>.
  \<^verbatim>\<open>c.timeout.Seconds() == 0\<close> holds exactly for the zero duration. With a timer, the
  \<^verbatim>\<open>select\<close> takes the stream's next event if it comes within the timeout.
\<close>

definition CommandWaitForResp_Execute ::
    "Duration \<Rightarrow> ExecutionContext \<Rightarrow> (exec_ret \<times> ExecutionContext) option" where
  "CommandWaitForResp_Execute timeout exCtx =
     (if timeout = 0 then
        (case receive (Connection exCtx) of
           None \<Rightarrow> None
         | Some (None, conn) \<Rightarrow>
             Some ((None, Some (Errorf ''connection closed'' [])), exCtx\<lparr>Connection := conn\<rparr>)
         | Some (Some msg, conn) \<Rightarrow>
             Some ((Some (PrintMsg msg), None), exCtx\<lparr>Connection := conn\<rparr>))
      else
        (case receive (Connection exCtx) of
           None \<Rightarrow> Some ((None, Some (Errorf ''timeout'' [])), exCtx)
         | Some (r, conn) \<Rightarrow>
             if \<not> arrives_within (Connection exCtx) timeout then
               Some ((None, Some (Errorf ''timeout'' [])), exCtx)
             else (case r of
                     None \<Rightarrow>
                       Some ((None, Some (Errorf ''connection closed'' [])),
                             exCtx\<lparr>Connection := conn\<rparr>)
                   | Some msg \<Rightarrow>
                       Some ((Some (PrintMsg msg), None), exCtx\<lparr>Connection := conn\<rparr>))))"

text \<open>\<^verbatim>\<open>func (c *CommandCmdEdit) Execute(exCtx ExecutionContext) (Executer, error)\<close>\<close>

definition CommandCmdEdit_Execute :: "ExecutionContext \<Rightarrow> exec_ret \<times> ExecutionContext" where
  "CommandCmdEdit_Execute exCtx =
     (let c1 = Fprint (Plain '':'') exCtx;
          c2 = Fprint (Plain ShowCursor) c1;
          (rawCmd, err) = RequestEditor c2 [];
          c3 = Fprint (Plain (LineClear @ [char_of (13 :: nat)])) c2;
          c4 = Fprint (Plain HideCursor) c3
      in if err \<noteq> None then ((None, err), c4)
         else
           (case CommandFactory rawCmd (Macro c4) of
              (cmd, Some err') \<Rightarrow> ((None, None), Fprint (ColoredError FgRed err') c4)
            | (cmd, None) \<Rightarrow> ((cmd, None), c4)))"


subsection \<open>Compound commands\<close>

text \<open>
  A compound command calls \<^verbatim>\<open>Execute\<close> on executers it holds or is handed back; the
  dynamic dispatch is the argument \<open>exec\<close>. A call that never returns is \<open>None\<close>.
\<close>

type_synonym dispatch = "executer \<Rightarrow> ExecutionContext \<Rightarrow> (exec_ret \<times> ExecutionContext) option"

text \<open>
  The inner loop of \<^verbatim>\<open>CommandSequence.Execute\<close>:
  \<^verbatim>\<open>for cmd != nil { if cmd, err = cmd.Execute(exCtx); err != nil { return nil, err } }\<close>.
  It gives the error that stopped it, if any, and may run forever.
\<close>

partial_function (option) run_chain ::
    "dispatch \<Rightarrow> executer option \<Rightarrow> ExecutionContext \<Rightarrow> (error option \<times> ExecutionContext) option" where
  "run_chain exec cmd exCtx =
     (case cmd of
        None \<Rightarrow> Some (None, exCtx)
      | Some e \<Rightarrow>
          (case exec e exCtx of
             None \<Rightarrow> None
           | Some r \<Rightarrow>
               if snd (fst r) \<noteq> None then Some (snd (fst r), snd r)
               else run_chain exec (fst (fst r)) (snd r)))"


text \<open>
  Modelled from the spec: \<^verbatim>\<open>RepeatCommand.Execute\<close> is not among the given sources.
  "Repeat: count, sub-Executer; runs the sub-Executer's full chain count times in a row;
  sub-chain error aborts": a counting loop around the chain loop of Sequence.
\<close>

function repeat_loop ::
    "dispatch \<Rightarrow> int \<Rightarrow> int \<Rightarrow> executer option \<Rightarrow> ExecutionContext
      \<Rightarrow> (exec_ret \<times> ExecutionContext) option" where
  "repeat_loop exec i count subCommand exCtx =
     (if i < count then
        (case run_chain exec subCommand exCtx of
           None \<Rightarrow> None
         | Some (Some err, c) \<Rightarrow> Some ((None, Some err), c)
         | Some (None, c) \<Rightarrow> repeat_loop exec (i + 1) count subCommand c)
      else Some ((None, None), exCtx))"
  by pat_completeness auto
termination
  by (relation "measure (\<lambda>(exec, i, count, subCommand, exCtx). nat (count - i))") auto

declare repeat_loop.simps [simp del]




section \<open>The macro repository (package macro)\<close>

text \<open>
  \<^verbatim>\<open>type Repo struct { macro map[string]*command.Templates; domains []string }\<close>. The
  templates are not inspected by the functions below: \<open>'t\<close>.
\<close>

record 't Repo =
  macro :: "string \<rightharpoonup> 't"
  domains :: "string list"

text \<open>
  The loop of \<^verbatim>\<open>merge\<close>, \<^verbatim>\<open>for name, cmd := range macro.macro\<close>, visits the entries of
  the source map in an order Go does not fix: the order is the list \<open>entries\<close>, each key
  once. The target map is updated in place; the result is the map as the call leaves it
  and the error returned.
\<close>

fun merge_loop :: "(string \<rightharpoonup> 't) \<Rightarrow> (string \<times> 't) list \<Rightarrow> (string \<rightharpoonup> 't) \<times> error option" where
  "merge_loop m [] = (m, None)"
| "merge_loop m ((name, cmd) # entries) =
     (if m name \<noteq> None then (m, Some (Errorf ''duplicate macro: %s'' [ArgString name]))
      else merge_loop (m(name \<mapsto> cmd)) entries)"

text \<open>
  \<^verbatim>\<open>func (m *Repo) merge(macro *Repo) error\<close>, with the order in which the source's
  entries are visited.
\<close>

definition merge :: "'t Repo \<Rightarrow> (string \<times> 't) list \<Rightarrow> 't Repo \<times> error option" where
  "merge m entries =
     (let (mm, err) = merge_loop (macro m) entries in (m\<lparr>macro := mm\<rparr>, err))"

text \<open>An order of visit of a map: its entries, each key once.\<close>

definition range_of :: "(string \<rightharpoonup> 't) \<Rightarrow> (string \<times> 't) list \<Rightarrow> bool" where
  "range_of m entries \<longleftrightarrow> distinct (map fst entries) \<and> map_of entries = m"

text \<open>\<^verbatim>\<open>strings.HasSuffix\<close>\<close>

definition HasSuffix :: "string \<Rightarrow> string \<Rightarrow> bool" where
  "HasSuffix s suffix \<longleftrightarrow>
     length s \<ge> length suffix \<and> drop (length s - length suffix) s = suffix"

text \<open>
  A directory entry as \<^verbatim>\<open>LoadMacroForDomain\<close> sees it: its name, whether it is a
  directory, what \<^verbatim>\<open>LoadFromFile\<close> gives for it, and the order in which a later \<^verbatim>\<open>merge\<close>
  visits the macros of the loaded repository.
\<close>

record 't dir_entry =
  Name :: string
  IsDir :: bool
  loaded :: "error + 't Repo"
  visit :: "(string \<times> 't) list"

text \<open>
  The loop of \<^verbatim>\<open>LoadMacroForDomain\<close> over the directory entries (the directory was read),
  with the variable \<^verbatim>\<open>macro\<close> as accumulator.
\<close>

fun load_loop :: "'t dir_entry list \<Rightarrow> string \<Rightarrow> 't Repo option \<Rightarrow> 't Repo option \<times> error option" where
  "load_loop [] domain acc = (acc, None)"
| "load_loop (file # files) domain acc =
     (if IsDir file \<or> (\<not> HasSuffix (Name file) ''.yaml'' \<and> \<not> HasSuffix (Name file) ''.yml'')
      then load_loop files domain acc
      else
        (case loaded file of
           Inl err \<Rightarrow> (None, Some err)
         | Inr fileMacro \<Rightarrow>
             if \<not> (\<exists>fileDomain \<in> set (domains fileMacro). HasSuffix domain fileDomain)
             then load_loop files domain acc
             else
               (case acc of
                  None \<Rightarrow> load_loop files domain (Some fileMacro)
                | Some m \<Rightarrow>
                    (case merge m (visit file) of
                       (m', Some err) \<Rightarrow>
                         (None, Some (Errorf ''fail to loading macro from file %s, %w ''
                                        [ArgString (Name file), ArgError (Some err)]))
                     | (m', None) \<Rightarrow> load_loop files domain (Some m')))))"

definition LoadMacroForDomain :: "'t dir_entry list \<Rightarrow> string \<Rightarrow> 't Repo option \<times> error option" where
  "LoadMacroForDomain files domain = load_loop files domain None"


section \<open>Example values\<close>

text \<open>
  A freshly dialled connection whose transport accepts every write and whose stream is
  open and empty, and a context around it: empty sinks, no file sink, a formatter that
  gives the data as it is, editors that give back the initial buffer, no macros.
\<close>

definition conn0 :: Connection where
  "conn0 = \<lparr>ws_Send = (\<lambda>msg. None), ws_sent = [], ws_Close_calls = 0, Messages = [],
            Messages_closes = False, arrives_within = (\<lambda>d. True), waitGroup = 0,
            Hostname = ''localhost'', isClosed = False\<rparr>"

definition exCtx0 :: ExecutionContext where
  "exCtx0 = \<lparr>OutputFile = None, Output = [], FormatMessage = (\<lambda>msg. (Data msg, None)),
             FormatForFile = (\<lambda>msg. (Data msg, None)), Connection = conn0,
             RequestEditor = (\<lambda>init. (init, None)), CmdEditor = (\<lambda>init. (init, None)),
             Macro = None\<rparr>"


text \<open>
  Two macro repositories for the same domain that both have a macro \<^verbatim>\<open>a\<close>, the templates
  being numbered; an order in which the range loop may visit the second one; the file
  the second one is loaded from.
\<close>

definition repo_a :: "nat Repo" where
  "repo_a = \<lparr>macro = map_of [(''a'', 0)], domains = [''example.com'']\<rparr>"

definition visit_ba :: "(string \<times> nat) list" where
  "visit_ba = [(''b'', 2), (''a'', 1)]"

definition repo_ba :: "nat Repo" where
  "repo_ba = \<lparr>macro = map_of visit_ba, domains = [''example.com'']\<rparr>"

definition file_a :: "nat dir_entry" where
  "file_a = \<lparr>Name = ''a.yaml'', IsDir = False, loaded = Inr repo_a, visit = [(''a'', 0)]\<rparr>"

definition file_ba :: "nat dir_entry" where
  "file_ba = \<lparr>Name = ''ba.yml'', IsDir = False, loaded = Inr repo_ba, visit = visit_ba\<rparr>"

section \<open>Properties of the parser\<close>

lemmas atoi_eval = Atoi_def ParseUint_def is_digit_def digit_val_def maxUint64_def
lemmas create_eval = Create.simps SplitN_2 PartsNumber_def

lemma cut_at_space:
  "CHR '' '' \<notin> set kw \<Longrightarrow> cut_at '' '' (kw @ CHR '' '' # rest) = Some (kw, rest)"
  by (induction kw) auto

lemma cut_at_no_space:
  "CHR '' '' \<notin> set s \<Longrightarrow> cut_at '' '' s = None"
  by (induction s) auto





lemma Create_print_type:
  assumes "CHR '' '' \<notin> set kw"
  shows "Create mr (''print '' @ kw @ '' '' @ msg) =
    (if kw = ''Request'' then Returns (Some (PrintMsg \<lparr>Data = msg, Type = Request\<rparr>), None)
     else if kw = ''Response'' then Returns (Some (PrintMsg \<lparr>Data = msg, Type = Response\<rparr>), None)
     else Returns (None, Some (Errorf ''invalid message type: %s'' [ArgString ''print''])))"
  using assms
  by (subst Create.simps) (simp add: SplitN_2 PartsNumber_def cut_at_space Let_def split: sum.splits)

lemma Create_print_short:
  assumes "CHR '' '' \<notin> set rest"
  shows "Create mr (''print '' @ rest) =
    Returns (None, Some (Errorf ''not enough arguments for print command: %s'' [ArgString (''print '' @ rest)]))"
  using assms
  by (subst Create.simps) (simp add: SplitN_2 PartsNumber_def cut_at_no_space Let_def split: sum.splits)

lemma Create_wait_arg: "Create mr (''wait '' @ arg) = (case Atoi arg of Inl err \<Rightarrow> Returns (None, Some (ErrInvalidTimeout arg)) | Inr sec \<Rightarrow> if sec < 0 then Returns (None, Some (ErrInvalidTimeout arg)) else Returns (Some (WaitForResp (seconds sec)), None))"
  by (simp add: create_eval Let_def split: sum.splits)



text \<open>
  What holds of \<^verbatim>\<open>print\<close> lines: the two scenarios of the specification, the error for
  a type keyword other than \<^verbatim>\<open>Request\<close> and \<^verbatim>\<open>Response\<close>, the error for a line with no
  second word after the keyword, the error for the keyword alone.
\<close>

lemma Create_print_errors:
  \<open>Create mr ''print Response {"a":1}'' =
     Returns (Some (PrintMsg \<lparr>Data = ''{"a":1}'', Type = Response\<rparr>), None)
   \<and> Create mr ''print Bogus x'' =
       Returns (None, Some (Errorf ''invalid message type: %s'' [ArgString ''print'']))
   \<and> (CHR '' '' \<notin> set kw \<and> kw \<noteq> ''Request'' \<and> kw \<noteq> ''Response'' \<longrightarrow>
        Create mr (''print '' @ kw @ '' '' @ msg) =
          Returns (None, Some (Errorf ''invalid message type: %s'' [ArgString ''print''])))
   \<and> (CHR '' '' \<notin> set rest \<longrightarrow>
        Create mr (''print '' @ rest) =
          Returns (None, Some (Errorf ''not enough arguments for print command: %s''
                                 [ArgString (''print '' @ rest)])))
   \<and> Create mr ''print'' = Returns (None, Some ErrEmptyRequest)\<close>
proof (intro conjI impI)
  show \<open>Create mr ''print Response {"a":1}'' =
     Returns (Some (PrintMsg \<lparr>Data = ''{"a":1}'', Type = Response\<rparr>), None)\<close>
    by (simp add: create_eval)
  show "Create mr ''print Bogus x'' =
       Returns (None, Some (Errorf ''invalid message type: %s'' [ArgString ''print'']))"
    by (simp add: create_eval)
  show "Create mr ''print'' = Returns (None, Some ErrEmptyRequest)"
    by (simp add: create_eval)
next
  assume "CHR '' '' \<notin> set kw \<and> kw \<noteq> ''Request'' \<and> kw \<noteq> ''Response''"
  then show "Create mr (''print '' @ kw @ '' '' @ msg) =
          Returns (None, Some (Errorf ''invalid message type: %s'' [ArgString ''print'']))"
    using Create_print_type [of kw mr msg] by simp
next
  assume "CHR '' '' \<notin> set rest"
  then show "Create mr (''print '' @ rest) =
          Returns (None, Some (Errorf ''not enough arguments for print command: %s''
                                 [ArgString (''print '' @ rest)]))"
    by (rule Create_print_short)
qed

section \<open>Properties of the compound commands and of the merge\<close>



lemma run_chain_next:
  "exec e exCtx = Some ((next, None), c) \<Longrightarrow>
     run_chain exec (Some e) exCtx = run_chain exec next c"
  by (subst run_chain.simps) simp

lemma run_chain_blocked:
  "exec e exCtx = None \<Longrightarrow> run_chain exec (Some e) exCtx = None"
  by (subst run_chain.simps) simp

lemma repeat_loop_abort:
  assumes "i < count" and "run_chain exec sub c = Some (Some err, c')"
  shows "repeat_loop exec i count sub c = Some ((None, Some err), c')"
  using assms by (subst repeat_loop.simps) simp

lemma CmdEdit_ignores_CmdEditor:
  "fst (CommandCmdEdit_Execute (exCtx\<lparr>CmdEditor := ed\<rparr>)) = fst (CommandCmdEdit_Execute exCtx)"
  by (simp add: CommandCmdEdit_Execute_def Fprint_def Let_def split: prod.splits option.splits)

lemma merge_loop_keeps: "m \<subseteq>\<^sub>m fst (merge_loop m entries)"
proof (induction entries arbitrary: m)
  case Nil
  show ?case by simp
next
  case (Cons e entries)
  obtain name cmd where e: "e = (name, cmd)" by (cases e)
  show ?case
  proof (cases "m name")
    case None
    then have "m \<subseteq>\<^sub>m m(name \<mapsto> cmd)"
      by (auto simp: map_le_def)
    then have "m \<subseteq>\<^sub>m fst (merge_loop (m(name \<mapsto> cmd)) entries)"
      using Cons.IH [of "m(name \<mapsto> cmd)"] by (rule map_le_trans)
    with None e show ?thesis by simp
  next
    case (Some v)
    with e show ?thesis by simp
  qed
qed

lemma merge_loop_source:
  "fst (merge_loop m entries) k = Some v \<Longrightarrow> m k = Some v \<or> (k, v) \<in> set entries"
proof (induction entries arbitrary: m)
  case Nil
  then show ?case by simp
next
  case (Cons e entries)
  obtain name cmd where e: "e = (name, cmd)" by (cases e)
  show ?case
  proof (cases "m name")
    case None
    with Cons.prems e have "fst (merge_loop (m(name \<mapsto> cmd)) entries) k = Some v"
      by simp
    from Cons.IH [OF this] e show ?thesis
      by (auto split: if_splits)
  next
    case (Some w)
    with Cons.prems e show ?thesis by simp
  qed
qed

lemma merge_loop_duplicate:
  assumes "distinct (map fst entries)" and "name0 \<in> fst ` set entries" and "m name0 \<noteq> None"
  shows "\<exists>name. snd (merge_loop m entries) = Some (Errorf ''duplicate macro: %s'' [ArgString name])
           \<and> m name \<noteq> None \<and> name \<in> fst ` set entries"
  using assms
proof (induction entries arbitrary: m)
  case Nil
  then show ?case by simp
next
  case (Cons e entries)
  obtain name cmd where e: "e = (name, cmd)" by (cases e)
  show ?case
  proof (cases "m name")
    case (Some w)
    with e show ?thesis by auto
  next
    case None
    with Cons.prems(3) have ne: "name0 \<noteq> name" by auto
    with Cons.prems(2) e have in_rest: "name0 \<in> fst ` set entries" by auto
    from Cons.prems(1) e have d: "distinct (map fst entries)" and fresh: "name \<notin> fst ` set entries"
      by auto
    from ne Cons.prems(3) have "(m(name \<mapsto> cmd)) name0 \<noteq> None" by simp
    from Cons.IH [where m = "m(name \<mapsto> cmd)", OF d in_rest this] obtain name1 where
      err: "snd (merge_loop (m(name \<mapsto> cmd)) entries) = Some (Errorf ''duplicate macro: %s'' [ArgString name1])"
      and present: "(m(name \<mapsto> cmd)) name1 \<noteq> None" and src: "name1 \<in> fst ` set entries"
      by blast
    from src fresh have "name1 \<noteq> name" by auto
    with present have "m name1 \<noteq> None" by simp
    with err src None e show ?thesis by auto
  qed
qed

lemma merge_loop_prefix:
  assumes "distinct (map fst entries)"
    and "snd (merge_loop m entries) = Some (Errorf ''duplicate macro: %s'' [ArgString name])"
  shows "\<exists>pre cmd post. entries = pre @ (name, cmd) # post
           \<and> fst (merge_loop m entries) = m ++ map_of pre
           \<and> (\<forall>k \<in> fst ` set pre. m k = None)"
  using assms
proof (induction entries arbitrary: m)
  case Nil
  then show ?case by simp
next
  case (Cons e entries)
  obtain n c where e: "e = (n, c)" by (cases e)
  show ?case
  proof (cases "m n")
    case (Some w)
    with Cons.prems(2) e have "name = n" and "fst (merge_loop m (e # entries)) = m"
      by simp_all
    with e have "e # entries = [] @ (name, c) # entries
        \<and> fst (merge_loop m (e # entries)) = m ++ map_of []
        \<and> (\<forall>k \<in> fst ` set []. m k = None)"
      by simp
    then show ?thesis by blast
  next
    case None
    from Cons.prems(1) e have d: "distinct (map fst entries)" and fresh: "n \<notin> fst ` set entries"
      by auto
    from Cons.prems(2) None e
    have err: "snd (merge_loop (m(n \<mapsto> c)) entries) = Some (Errorf ''duplicate macro: %s'' [ArgString name])"
      by simp
    from Cons.IH [where m = "m(n \<mapsto> c)", OF d err] obtain pre cmd post where
      split: "entries = pre @ (name, cmd) # post"
      and res: "fst (merge_loop (m(n \<mapsto> c)) entries) = m(n \<mapsto> c) ++ map_of pre"
      and free: "\<forall>k \<in> fst ` set pre. (m(n \<mapsto> c)) k = None"
      by blast
    from fresh split have npre: "n \<notin> fst ` set pre"
      by auto
    then have "map_of pre n = None"
      by (simp add: map_of_eq_None_iff)
    then have eq: "m(n \<mapsto> c) ++ map_of pre = m ++ map_of ((n, c) # pre)"
      by (auto simp: map_add_def fun_eq_iff split: option.splits)
    have free': "\<forall>k \<in> fst ` set ((n, c) # pre). m k = None"
    proof
      fix k assume "k \<in> fst ` set ((n, c) # pre)"
      then have "k = n \<or> k \<in> fst ` set pre" by auto
      then show "m k = None"
      proof
        assume "k = n" with None show ?thesis by simp
      next
        assume k: "k \<in> fst ` set pre"
        from free k have "(m(n \<mapsto> c)) k = None" by (rule bspec)
        then show ?thesis by (simp split: if_splits)
      qed
    qed
    from None e res eq have "fst (merge_loop m (e # entries)) = m ++ map_of ((n, c) # pre)"
      by simp
    moreover from split e have "e # entries = ((n, c) # pre) @ (name, cmd) # post"
      by simp
    ultimately show ?thesis using free' by blast
  qed
qed

section \<open>Claims\<close>

text \<open>
  Claim C1. Every raw line should make \<^verbatim>\<open>Create\<close> return its pair, a parse failure being a
  returned error; in particular \<^verbatim>\<open>repeat 3\<close> should give an error. The code checks
  \<^verbatim>\<open>len(parts)\<close> a second time where the length of \<^verbatim>\<open>repeatParts\<close> was meant, so on
  \<^verbatim>\<open>repeat 3\<close> the index expression \<^verbatim>\<open>repeatParts[1]\<close> is evaluated on a slice of length
  one: the call panics, whatever the macro repository.
\<close>

theorem Create_repeat_without_subcommand_panics:
  "Create mr ''repeat 3'' = Panics (IndexOutOfRange 1 1)"
  by (simp add: create_eval atoi_eval)

text \<open>
  Claim C2, as amended. Merging a repository into one that shares a macro name with it
  fails with the duplicate-macro error for a name both have, in whatever order the range
  loop visits the source. The merge updates the target in place and does not undo: after
  the failure the target still has every macro it had, unchanged, and holds besides
  exactly the source macros visited before the duplicate (all of them new names); its
  domains are as before. \<^verbatim>\<open>LoadMacroForDomain\<close> then returns the wrapped error and no repository.
\<close>

theorem merge_overlap:
  assumes "range_of (macro src) entries" and "dom (macro m) \<inter> dom (macro src) \<noteq> {}"
  shows "\<exists>name. snd (merge m entries) = Some (Errorf ''duplicate macro: %s'' [ArgString name])
            \<and> name \<in> dom (macro m) \<inter> dom (macro src)
            \<and> macro m \<subseteq>\<^sub>m macro (fst (merge m entries))
            \<and> (\<forall>k v. macro (fst (merge m entries)) k = Some v \<longrightarrow>
                   macro m k = Some v \<or> macro src k = Some v)
            \<and> domains (fst (merge m entries)) = domains m
            \<and> (\<exists>pre cmd post. entries = pre @ (name, cmd) # post
                   \<and> macro (fst (merge m entries)) = macro m ++ map_of pre
                   \<and> (\<forall>k \<in> fst ` set pre. macro m k = None))
            \<and> (IsDir ent = False \<and> (HasSuffix (Name ent) ''.yaml'' \<or> HasSuffix (Name ent) ''.yml'')
                 \<and> loaded ent = Inr src
                 \<and> visit ent = entries
                 \<and> (\<exists>fileDomain \<in> set (domains src). HasSuffix domain fileDomain) \<longrightarrow>
               load_loop (ent # ents) domain (Some m) =
                 (None, Some (Errorf ''fail to loading macro from file %s, %w ''
                                [ArgString (Name ent),
                                 ArgError (Some (Errorf ''duplicate macro: %s'' [ArgString name]))])))"
proof -
  from assms(1) have d: "distinct (map fst entries)" and mo: "map_of entries = macro src"
    by (simp_all add: range_of_def)
  from assms(2) obtain name0 where n0: "macro m name0 \<noteq> None" and "macro src name0 \<noteq> None"
    by auto
  with mo have "name0 \<in> fst ` set entries"
    by (metis map_of_eq_None_iff)
  from merge_loop_duplicate [where m = "macro m", OF d this n0] obtain name where
    err: "snd (merge_loop (macro m) entries) = Some (Errorf ''duplicate macro: %s'' [ArgString name])"
    and present: "macro m name \<noteq> None" and src: "name \<in> fst ` set entries"
    by blast
  from src mo have "macro src name \<noteq> None"
    by (metis map_of_eq_None_iff)
  with present have both: "name \<in> dom (macro m) \<inter> dom (macro src)"
    by auto
  have res: "macro (fst (merge m entries)) = fst (merge_loop (macro m) entries)"
    and err': "snd (merge m entries) = snd (merge_loop (macro m) entries)"
    and dom: "domains (fst (merge m entries)) = domains m"
    by (simp_all add: merge_def split: prod.splits)
  have keep: "macro m \<subseteq>\<^sub>m macro (fst (merge m entries))"
    unfolding res by (rule merge_loop_keeps)
  have from_src: "macro m k = Some v \<or> macro src k = Some v"
    if "macro (fst (merge m entries)) k = Some v" for k v
  proof -
    from that have "macro m k = Some v \<or> (k, v) \<in> set entries"
      unfolding res by (rule merge_loop_source)
    with d mo show ?thesis
      by (metis map_of_is_SomeI)
  qed
  have loader: "load_loop (ent # ents) domain (Some m) =
                 (None, Some (Errorf ''fail to loading macro from file %s, %w ''
                                [ArgString (Name ent),
                                 ArgError (Some (Errorf ''duplicate macro: %s'' [ArgString name]))]))"
    if "IsDir ent = False \<and> (HasSuffix (Name ent) ''.yaml'' \<or> HasSuffix (Name ent) ''.yml'')
          \<and> loaded ent = Inr src
          \<and> visit ent = entries
          \<and> (\<exists>fileDomain \<in> set (domains src). HasSuffix domain fileDomain)"
    using that err err' by (cases "merge m entries") auto
  from merge_loop_prefix [where m = "macro m", OF d err]
  have visited: "\<exists>pre cmd post. entries = pre @ (name, cmd) # post
                   \<and> macro (fst (merge m entries)) = macro m ++ map_of pre
                   \<and> (\<forall>k \<in> fst ` set pre. macro m k = None)"
    unfolding res .
  show ?thesis
  proof (rule exI [of _ name], intro conjI)
    show "snd (merge m entries) = Some (Errorf ''duplicate macro: %s'' [ArgString name])"
      using err err' by simp
    show "name \<in> dom (macro m) \<inter> dom (macro src)"
      by (rule both)
    show "macro m \<subseteq>\<^sub>m macro (fst (merge m entries))"
      by (rule keep)
    show "domains (fst (merge m entries)) = domains m"
      by (rule dom)
    show "\<exists>pre cmd post. entries = pre @ (name, cmd) # post
                   \<and> macro (fst (merge m entries)) = macro m ++ map_of pre
                   \<and> (\<forall>k \<in> fst ` set pre. macro m k = None)"
      by (rule visited)
    show "\<forall>k v. macro (fst (merge m entries)) k = Some v \<longrightarrow>
                   macro m k = Some v \<or> macro src k = Some v"
      using from_src by blast
  next
    show "IsDir ent = False \<and> (HasSuffix (Name ent) ''.yaml'' \<or> HasSuffix (Name ent) ''.yml'')
                 \<and> loaded ent = Inr src
                 \<and> visit ent = entries
                 \<and> (\<exists>fileDomain \<in> set (domains src). HasSuffix domain fileDomain) \<longrightarrow>
               load_loop (ent # ents) domain (Some m) =
                 (None, Some (Errorf ''fail to loading macro from file %s, %w ''
                                [ArgString (Name ent),
                                 ArgError (Some (Errorf ''duplicate macro: %s'' [ArgString name]))]))"
      using loader by blast
  qed
qed

theorem merge_overlap_counterexample:
  "range_of (macro repo_ba) visit_ba
   \<and> ''a'' \<in> dom (macro repo_a) \<inter> dom (macro repo_ba)
   \<and> snd (merge repo_a visit_ba) = Some (Errorf ''duplicate macro: %s'' [ArgString ''a''])
   \<and> macro repo_a ''b'' = None
   \<and> macro (fst (merge repo_a visit_ba)) ''b'' = Some 2
   \<and> fst (merge repo_a visit_ba) \<noteq> repo_a"
proof -
  have r: "range_of (macro repo_ba) visit_ba"
    by (simp add: range_of_def repo_ba_def visit_ba_def)
  have o: "''a'' \<in> dom (macro repo_a) \<inter> dom (macro repo_ba)"
    by (simp add: repo_a_def repo_ba_def visit_ba_def)
  have e: "snd (merge repo_a visit_ba) = Some (Errorf ''duplicate macro: %s'' [ArgString ''a''])"
    by (simp add: merge_def repo_a_def visit_ba_def)
  have before: "macro repo_a ''b'' = None"
    by (simp add: repo_a_def)
  have after: "macro (fst (merge repo_a visit_ba)) ''b'' = Some 2"
    by (simp add: merge_def repo_a_def visit_ba_def)
  from before after have "fst (merge repo_a visit_ba) \<noteq> repo_a"
    by auto
  with r o e before after show ?thesis
    by blast
qed

theorem merge_overlap_witness:
  "range_of (macro repo_ba) visit_ba
   \<and> dom (macro repo_a) \<inter> dom (macro repo_ba) \<noteq> {}
   \<and> snd (merge repo_a visit_ba) = Some (Errorf ''duplicate macro: %s'' [ArgString ''a''])
   \<and> macro repo_a \<subseteq>\<^sub>m macro (fst (merge repo_a visit_ba))
   \<and> load_loop [file_ba] ''api.example.com'' (Some repo_a) =
        (None, Some (Errorf ''fail to loading macro from file %s, %w ''
                       [ArgString ''ba.yml'',
                        ArgError (Some (Errorf ''duplicate macro: %s'' [ArgString ''a'']))]))
   \<and> LoadMacroForDomain [file_a, file_ba] ''api.example.com'' =
        (None, Some (Errorf ''fail to loading macro from file %s, %w ''
                       [ArgString ''ba.yml'',
                        ArgError (Some (Errorf ''duplicate macro: %s'' [ArgString ''a'']))]))"
proof -
  have r: "range_of (macro repo_ba) visit_ba"
    by (simp add: range_of_def repo_ba_def visit_ba_def)
  have "''a'' \<in> dom (macro repo_a) \<inter> dom (macro repo_ba)"
    by (simp add: repo_a_def repo_ba_def visit_ba_def)
  then have o: "dom (macro repo_a) \<inter> dom (macro repo_ba) \<noteq> {}"
    by blast
  have e: "snd (merge repo_a visit_ba) = Some (Errorf ''duplicate macro: %s'' [ArgString ''a''])"
    by (simp add: merge_def repo_a_def visit_ba_def)
  have suffix: "HasSuffix ''api.example.com'' ''example.com''"
    by (simp add: HasSuffix_def)
  have fl: "IsDir file_ba = False \<and> (HasSuffix (Name file_ba) ''.yaml'' \<or> HasSuffix (Name file_ba) ''.yml'')
      \<and> loaded file_ba = Inr repo_ba \<and> visit file_ba = visit_ba
      \<and> (\<exists>fileDomain \<in> set (domains repo_ba). HasSuffix ''api.example.com'' fileDomain)"
    using suffix by (simp add: file_ba_def repo_ba_def HasSuffix_def)
  from merge_overlap [OF r o, where ent = file_ba and domain = "''api.example.com''" and ents = "[]"]
  obtain name where
    n: "snd (merge repo_a visit_ba) = Some (Errorf ''duplicate macro: %s'' [ArgString name])"
    and k: "macro repo_a \<subseteq>\<^sub>m macro (fst (merge repo_a visit_ba))"
    and l: "IsDir file_ba = False \<and> (HasSuffix (Name file_ba) ''.yaml'' \<or> HasSuffix (Name file_ba) ''.yml'')
      \<and> loaded file_ba = Inr repo_ba \<and> visit file_ba = visit_ba
      \<and> (\<exists>fileDomain \<in> set (domains repo_ba). HasSuffix ''api.example.com'' fileDomain) \<longrightarrow>
      load_loop [file_ba] ''api.example.com'' (Some repo_a) =
        (None, Some (Errorf ''fail to loading macro from file %s, %w ''
                       [ArgString (Name file_ba),
                        ArgError (Some (Errorf ''duplicate macro: %s'' [ArgString name]))]))"
    by blast
  from n e have name: "name = ''a''" by simp
  have nm: "Name file_ba = ''ba.yml''"
    by (simp add: file_ba_def)
  from l fl have "load_loop [file_ba] ''api.example.com'' (Some repo_a) =
        (None, Some (Errorf ''fail to loading macro from file %s, %w ''
                       [ArgString (Name file_ba),
                        ArgError (Some (Errorf ''duplicate macro: %s'' [ArgString name]))]))"
    by (rule mp)
  then have ld: "load_loop [file_ba] ''api.example.com'' (Some repo_a) =
        (None, Some (Errorf ''fail to loading macro from file %s, %w ''
                       [ArgString ''ba.yml'',
                        ArgError (Some (Errorf ''duplicate macro: %s'' [ArgString ''a'']))]))"
    unfolding nm name .
  have "LoadMacroForDomain [file_a, file_ba] ''api.example.com'' =
          load_loop [file_ba] ''api.example.com'' (Some repo_a)"
    using suffix by (simp add: LoadMacroForDomain_def file_a_def repo_a_def HasSuffix_def)
  from this ld have full: "LoadMacroForDomain [file_a, file_ba] ''api.example.com'' =
        (None, Some (Errorf ''fail to loading macro from file %s, %w ''
                       [ArgString ''ba.yml'',
                        ArgError (Some (Errorf ''duplicate macro: %s'' [ArgString ''a'']))]))"
    by (rule trans)
  from r o e k ld full show ?thesis
    by (intro conjI)
qed




text \<open>
  Claim C5. \<^verbatim>\<open>CommandCmdEdit.Execute\<close> should take its line from the command-line editor
  of the context. It calls \<^verbatim>\<open>exCtx.RequestEditor()\<close>: where the request editor gives
  \<^verbatim>\<open>exit\<close> and the command editor gives \<^verbatim>\<open>wait\<close>, the successor is \<^verbatim>\<open>Exit\<close>, not the
  \<^verbatim>\<open>WaitForResp\<close> the factory makes of \<^verbatim>\<open>wait\<close>.
\<close>

theorem CmdEdit_reads_request_editor:
  "fst (CommandCmdEdit_Execute
          (exCtx0\<lparr>RequestEditor := (\<lambda>init. (''exit'', None)),
                  CmdEditor := (\<lambda>init. (''wait'', None))\<rparr>)) = (Some Exit, None)
   \<and> CommandFactory ''wait'' None = (Some (WaitForResp 0), None)"
  by (simp add: CommandCmdEdit_Execute_def CommandFactory_def CommandPartsNumber_def SplitN_2
        exCtx0_def Fprint_def)

text \<open>
  Claim C6. \<^verbatim>\<open>wait 0\<close> and \<^verbatim>\<open>wait\<close> give the same executer, \<^verbatim>\<open>WaitForResp\<close> with the zero
  timeout. Executing it receives from the stream with no timer: the next message gives
  \<^verbatim>\<open>PrintMsg\<close> of it, the closed stream gives "connection closed", an open stream that
  stays empty keeps it waiting, and "timeout" is never the result. A seconds argument
  that is negative or does not parse is rejected with the invalid-timeout error.
\<close>

theorem wait_zero_is_wait:
  "Create mr ''wait 0'' = Create mr ''wait''
   \<and> Create mr ''wait'' = Returns (Some (WaitForResp 0), None)
   \<and> CommandWaitForResp_Execute 0 exCtx =
       (case Messages (Connection exCtx) of
          msg # ms \<Rightarrow>
            Some ((Some (PrintMsg msg), None),
                  exCtx\<lparr>Connection := (Connection exCtx)\<lparr>Messages := ms\<rparr>\<rparr>)
        | [] \<Rightarrow>
            if Messages_closes (Connection exCtx)
            then Some ((None, Some (Errorf ''connection closed'' [])), exCtx)
            else None)
   \<and> CommandWaitForResp_Execute 0 exCtx \<noteq> Some ((None, Some (Errorf ''timeout'' [])), c)
   \<and> ((case Atoi arg of Inl err \<Rightarrow> True | Inr sec \<Rightarrow> sec < 0) \<longrightarrow>
        Create mr (''wait '' @ arg) = Returns (None, Some (ErrInvalidTimeout arg)))"
proof (intro conjI impI)
  show "Create mr ''wait 0'' = Create mr ''wait''"
    by (simp add: create_eval atoi_eval seconds_def)
  show "Create mr ''wait'' = Returns (Some (WaitForResp 0), None)"
    by (simp add: create_eval)
  show "CommandWaitForResp_Execute 0 exCtx =
       (case Messages (Connection exCtx) of
          msg # ms \<Rightarrow>
            Some ((Some (PrintMsg msg), None),
                  exCtx\<lparr>Connection := (Connection exCtx)\<lparr>Messages := ms\<rparr>\<rparr>)
        | [] \<Rightarrow>
            if Messages_closes (Connection exCtx)
            then Some ((None, Some (Errorf ''connection closed'' [])), exCtx)
            else None)"
    by (simp add: CommandWaitForResp_Execute_def receive_def split: list.splits)
  show "CommandWaitForResp_Execute 0 exCtx \<noteq> Some ((None, Some (Errorf ''timeout'' [])), c)"
    by (simp add: CommandWaitForResp_Execute_def receive_def split: list.splits)
next
  assume "case Atoi arg of Inl err \<Rightarrow> True | Inr sec \<Rightarrow> sec < 0"
  then show "Create mr (''wait '' @ arg) = Returns (None, Some (ErrInvalidTimeout arg))"
    using Create_wait_arg [of mr arg] by (simp split: sum.splits)
qed

theorem wait_zero_is_wait_witness:
  "(case Atoi ''-1'' of Inl err \<Rightarrow> True | Inr sec \<Rightarrow> sec < 0)
   \<and> Create None ''wait -1'' = Returns (None, Some (ErrInvalidTimeout ''-1''))
   \<and> (case Atoi ''soon'' of Inl err \<Rightarrow> True | Inr sec \<Rightarrow> sec < 0)
   \<and> Create None ''wait soon'' = Returns (None, Some (ErrInvalidTimeout ''soon''))"
proof -
  have a: "case Atoi ''-1'' of Inl err \<Rightarrow> True | Inr sec \<Rightarrow> sec < 0"
    by (simp add: atoi_eval)
  have b: "case Atoi ''soon'' of Inl err \<Rightarrow> True | Inr sec \<Rightarrow> sec < 0"
    by (simp add: atoi_eval)
  from a wait_zero_is_wait [of None exCtx0 exCtx0 "''-1''"]
  have "Create None ''wait -1'' = Returns (None, Some (ErrInvalidTimeout ''-1''))"
    by simp
  moreover from b wait_zero_is_wait [of None exCtx0 exCtx0 "''soon''"]
  have "Create None ''wait soon'' = Returns (None, Some (ErrInvalidTimeout ''soon''))"
    by simp
  ultimately show ?thesis using a b by blast
qed

text \<open>
  Claim C7. A \<^verbatim>\<open>send\<close> line with an empty request should be an error. The keyword alone
  is; the keyword followed by the separating space and nothing else gives a \<^verbatim>\<open>Send\<close>
  executer with the empty request and no error.
\<close>

theorem Create_send_space_is_accepted:
  "Create mr ''send'' = Returns (None, Some ErrEmptyRequest)
   \<and> Create mr ''send '' = Returns (Some (Send []), None)"
  by (simp add: create_eval)

text \<open>
  Claim C8. A \<^verbatim>\<open>print\<close> line with a missing message argument should be an error. The
  line with no second word after the type keyword is, and so is \<^verbatim>\<open>print\<close> alone; the type
  keyword followed by the separating space and nothing else gives a \<^verbatim>\<open>PrintMsg\<close>
  executer with empty data and no error. (The two scenarios of the claim and the
  unknown type keyword are as the claim says: \<open>Create_print_errors\<close>.)
\<close>

theorem Create_print_empty_message_is_accepted:
  "Create mr ''print Response '' = Returns (Some (PrintMsg \<lparr>Data = [], Type = Response\<rparr>), None)
   \<and> Create mr ''print Request '' = Returns (Some (PrintMsg \<lparr>Data = [], Type = Request\<rparr>), None)
   \<and> Create mr ''print Response'' =
       Returns (None, Some (Errorf ''not enough arguments for print command: %s''
                              [ArgString ''print Response'']))
   \<and> Create mr ''print'' = Returns (None, Some ErrEmptyRequest)"
  by (simp add: create_eval)

text \<open>
  Claim C9. \<^verbatim>\<open>Close\<close> is idempotent: after the first call the connection is marked closed
  and, if it was open, the transport's \<^verbatim>\<open>Close\<close> has been called once; any number of
  further calls leave the connection as the first call left it, so the transport is not
  closed again. (Calls one after the other; \<^verbatim>\<open>Close\<close> has no loop and no blocking
  operation.)
\<close>

theorem Close_idempotent:
  "Connection_Close (Connection_Close conn) = Connection_Close conn
   \<and> (Connection_Close ^^ Suc n) conn = Connection_Close conn
   \<and> isClosed (Connection_Close conn)
   \<and> (\<not> isClosed conn \<longrightarrow>
        ws_Close_calls (Connection_Close conn) = ws_Close_calls conn + 1
        \<and> ws_Close_calls ((Connection_Close ^^ Suc n) conn) = ws_Close_calls conn + 1)"
proof -
  have twice: "Connection_Close (Connection_Close c) = Connection_Close c" for c
    by (simp add: Connection_Close_def Let_def)
  have many: "(Connection_Close ^^ Suc n) conn = Connection_Close conn"
    by (induction n) (simp_all add: twice)
  have first: "\<not> isClosed conn \<Longrightarrow> ws_Close_calls (Connection_Close conn) = ws_Close_calls conn + 1"
    by (simp add: Connection_Close_def Let_def)
  have closed: "isClosed (Connection_Close conn)"
    by (simp add: Connection_Close_def Let_def)
  from twice many first closed show ?thesis
    by presburger
qed

theorem Close_idempotent_witness:
  "\<not> isClosed conn0
   \<and> ws_Close_calls (Connection_Close conn0) = 1
   \<and> ws_Close_calls (Connection_Close (Connection_Close conn0)) = 1
   \<and> Connection_Close (Connection_Close conn0) = Connection_Close conn0"
proof -
  have a: "\<not> isClosed conn0" and b: "ws_Close_calls conn0 = 0"
    by (simp_all add: conn0_def)
  from a b Close_idempotent [of conn0 1] show ?thesis
    by (simp add: numeral_2_eq_2)
qed

text \<open>
  Claim C10. For a message whose type is neither Request nor Response and that the
  formatter accepts, \<^verbatim>\<open>CommandPrintMsg.Execute\<close> returns no successor and the "unknown
  message type" error, and leaves the context as it was: nothing is written to the
  screen output or to the file sink.
\<close>

theorem PrintMsg_unknown_type:
  assumes "Type msg \<noteq> Request" and "Type msg \<noteq> Response"
    and "snd (FormatMessage exCtx msg) = None"
  shows "CommandPrintMsg_Execute msg exCtx =
           ((None, Some (Errorf ''unknown message type: %s, data: %q''
                           [ArgString (MessageType_String (Type msg)), ArgString (Data msg)])),
            exCtx)"
  using assms by (auto simp: CommandPrintMsg_Execute_def split: prod.splits)

theorem PrintMsg_unknown_type_witness:
  "Type \<lparr>Data = ''ping'', Type = NotDefined\<rparr> \<noteq> Request
   \<and> Type \<lparr>Data = ''ping'', Type = NotDefined\<rparr> \<noteq> Response
   \<and> snd (FormatMessage exCtx0 \<lparr>Data = ''ping'', Type = NotDefined\<rparr>) = None
   \<and> CommandPrintMsg_Execute \<lparr>Data = ''ping'', Type = NotDefined\<rparr> exCtx0 =
       ((None, Some (Errorf ''unknown message type: %s, data: %q''
                       [ArgString ''Not defined'', ArgString ''ping''])), exCtx0)"
proof -
  let ?m = "\<lparr>Data = ''ping'', Type = NotDefined\<rparr>"
  have a: "Type ?m \<noteq> Request" and b: "Type ?m \<noteq> Response"
    by (simp_all add: NotDefined_def Request_def Response_def)
  have c: "snd (FormatMessage exCtx0 ?m) = None"
    by (simp add: exCtx0_def)
  from PrintMsg_unknown_type [OF a b c] a b c show ?thesis
    by (simp add: MessageType_String_def NotDefined_def Request_def Response_def)
qed

end
